theory Spec2Isabelle
  imports Main
begin

section \<open>The update checker of background/update.js\<close>

text \<open>
  The module checks installed styles for updates. One check is a chain of promise steps
  (digest, edit guard, download, save guard) whose rejections are caught by
  \<open>reportFailure\<close>. The embedding threads an explicit \<open>world\<close> through every step:
  the downloads made, the calls of \<open>usercss.buildCode\<close>, the writes to the style store, the messages posted to the observer
  port, the log queue, the debounce timers. A step returns \<open>reason + value\<close>, with
  \<open>Inl\<close> for a rejected promise.
\<close>

subsection \<open>STATES\<close>

definition UPDATED :: string where "UPDATED = ''updated''"
definition SKIPPED :: string where "SKIPPED = ''skipped''"
definition EDITED :: string where "EDITED = ''locally edited''"
definition MAYBE_EDITED :: string where "MAYBE_EDITED = ''may be locally edited''"
definition SAME_MD5 :: string where "SAME_MD5 = ''up-to-date: MD5 is unchanged''"
definition SAME_CODE :: string where "SAME_CODE = ''up-to-date: code sections are unchanged''"
definition SAME_VERSION :: string where "SAME_VERSION = ''up-to-date: version is unchanged''"
definition ERROR_MD5 :: string where "ERROR_MD5 = ''error: MD5 is invalid''"
definition ERROR_JSON :: string where "ERROR_JSON = ''error: JSON is invalid''"
definition ERROR_VERSION :: string where
  "ERROR_VERSION = ''error: version is older than installed style''"

subsection \<open>Data\<close>

text \<open>
  A rejection reason is what the promise chain rejects with: the numeric status of a
  failed download, one of the STATES strings, or a thrown exception (carried as the
  text JavaScript prints for it).
\<close>

datatype reason = Status nat | Msg string | Thrown string

text \<open>
  The \<open>sections\<close> property of a style object. A parsed remote document can hold
  anything there, so the shapes \<open>styleJSONseemsValid\<close> tells apart are kept:
  a falsy value, a truthy value that is no array, and an array whose entries are
  \<open>null\<close> or objects with a \<open>code\<close> that is a string or something else.
\<close>

datatype code_val = CodeString string | CodeOther
datatype section_val = SectionNull | Section code_val
datatype sections_val = NoSections | NonArray | SectionArray "section_val list"

record usercss_data =
  version :: string

text \<open>
  A style object, local or remote. A property that may be missing is an option
  (\<open>None\<close> is \<open>undefined\<close>). \<open>sid\<close> is the property \<open>id\<close>.
\<close>

record style =
  sid :: "nat option"
  name :: "string option"
  originalName :: "string option"
  enabled :: "bool option"
  updateDate :: "int option"
  reason :: "string option"
  originalDigest :: "string option"
  originalMd5 :: "string option"
  md5Url :: "string option"
  updateUrl :: "string option"
  usercssData :: "usercss_data option"
  sourceCode :: "string option"
  sections :: sections_val

text \<open>What \<open>tryJSONparse\<close> returns: \<open>undefined\<close> when the text does not parse.\<close>

datatype json_val = JUndefined | JNull | JObject style

text \<open>A call of \<open>download\<close>: the url, and whether \<open>{body: null}\<close> was passed.\<close>

datatype request = Request "string option" bool

datatype save_method = SaveStyle | SaveUsercss

text \<open>
  The object a check resolves with and posts to the port:
  \<open>{updated: true, style}\<close> or \<open>{error, STATES, style}\<close>.
\<close>

datatype info = Updated style | Skipped reason style

text \<open>
  How the promise returned by \<open>checkStyle\<close> ends: resolved, rejected (a handler
  threw), or waiting for the timer of a retry.
\<close>

datatype outcome = Resolved info | Rejected reason | RetryAfter int

datatype callback = CheckAllStyles | FlushQueue

text \<open>An entry of the log queue, \<open>{text, time}\<close>.\<close>

record log_item =
  item_text :: string
  item_time :: string

record world =
  fetched :: "request list"
  built :: "style list"
  writes :: "(save_method \<times> style) list"
  posted :: "info list"
  logQueue :: "log_item list"
  timers :: "callback \<Rightarrow> int option"
  retrying :: "nat option list"
  checkingAll :: bool
  now :: int
  lastUpdateTime :: int
  logLastWriteTime :: int
  storage :: "string \<Rightarrow> string list option"
  updateInterval :: int

text \<open>
  The globals of other files that the module calls. \<open>server n r\<close> is the answer of
  \<open>download\<close> to request \<open>r\<close> when \<open>n\<close> downloads were made before it: the
  response text, or the status the promise rejects with. \<open>store m d\<close> is what the
  store's promise settles with when document \<open>d\<close> is saved through method \<open>m\<close>.
\<close>

record env =
  calcStyleDigest :: "style \<Rightarrow> string"
  server :: "nat \<Rightarrow> request \<Rightarrow> nat + string"
  tryJSONparse :: "string \<Rightarrow> json_val"
  buildMeta :: "string \<Rightarrow> reason + style"
  buildCode :: "style \<Rightarrow> reason + style"
  semverCompare :: "string \<Rightarrow> string \<Rightarrow> int"
  styleSectionsEqual :: "sections_val \<Rightarrow> sections_val \<Rightarrow> bool"
  getStyleWithNoCode :: "style \<Rightarrow> style"
  store :: "save_method \<Rightarrow> style \<Rightarrow> reason + style"
  toLocaleString :: "int \<Rightarrow> string"

text \<open>The arguments of \<open>checkStyle\<close>; \<open>arg_id\<close> is the parameter \<open>id\<close>.\<close>

record args =
  arg_id :: "nat option"
  style :: style
  port :: bool
  save :: bool
  ignoreDigest :: bool

subsection \<open>Strings, truthiness, the log\<close>

text \<open>A number inside a template string is printed in decimal.\<close>

function show_nat :: "nat \<Rightarrow> string" where
  "show_nat n =
     (if n < 10 then [''0123456789'' ! n]
      else show_nat (n div 10) @ [''0123456789'' ! (n mod 10)])"
  by pat_completeness auto
termination
  by (relation "measure (\<lambda>n. n)") auto

declare show_nat.simps [simp del]

definition show_id :: "nat option \<Rightarrow> string" where
  "show_id v = (case v of None \<Rightarrow> ''undefined'' | Some n \<Rightarrow> show_nat n)"

definition show_name :: "string option \<Rightarrow> string" where
  "show_name v = (case v of None \<Rightarrow> ''undefined'' | Some s \<Rightarrow> s)"

definition show_reason :: "reason \<Rightarrow> string" where
  "show_reason e = (case e of Status n \<Rightarrow> show_nat n | Msg s \<Rightarrow> s | Thrown s \<Rightarrow> s)"

text \<open>A string property is truthy when it is present and not empty.\<close>

definition truthy :: "string option \<Rightarrow> bool" where
  "truthy v = (case v of None \<Rightarrow> False | Some s \<Rightarrow> s \<noteq> [])"

text \<open>
  Modelled from the spec: \<open>debounce\<close> and \<open>debounce.unregister\<close> are globals of
  another file. "Triggers are debounced: only the most recent pending trigger survives
  if re-armed before it fires": arming a callback replaces its pending delay,
  unregistering removes it.
\<close>

definition debounce :: "callback \<Rightarrow> int \<Rightarrow> world \<Rightarrow> world" where
  "debounce fn delay w = w\<lparr>timers := (timers w)(fn := Some delay)\<rparr>"

definition debounce_unregister :: "callback \<Rightarrow> world \<Rightarrow> world" where
  "debounce_unregister fn w = w\<lparr>timers := (timers w)(fn := None)\<rparr>"

definition log :: "env \<Rightarrow> string \<Rightarrow> world \<Rightarrow> world" where
  "log E txt w =
     debounce FlushQueue (if txt \<noteq> [] \<and> checkingAll w then 1000 else 0)
       (w\<lparr>logQueue := logQueue w @
            [\<lparr>item_text = txt, item_time = toLocaleString E (now w)\<rparr>]\<rparr>)"

definition postMessage :: "bool \<Rightarrow> info \<Rightarrow> world \<Rightarrow> world" where
  "postMessage p i w = (if p then w\<lparr>posted := posted w @ [i]\<rparr> else w)"

subsection \<open>The steps of checkStyle\<close>

definition download :: "env \<Rightarrow> request \<Rightarrow> world \<Rightarrow> (reason + string) \<times> world" where
  "download E r w =
     ((case server E (length (fetched w)) r of
         Inl st \<Rightarrow> Inl (Status st)
       | Inr body \<Rightarrow> Inr body),
      w\<lparr>fetched := fetched w @ [r]\<rparr>)"

definition checkIfEdited :: "style \<Rightarrow> string \<Rightarrow> reason + unit" where
  "checkIfEdited s digest =
     (if truthy (originalDigest s) \<and> originalDigest s \<noteq> Some digest
      then Inl (Msg EDITED) else Inr ())"

definition maybeUpdateUSO :: "env \<Rightarrow> args \<Rightarrow> world \<Rightarrow> (reason + json_val) \<times> world" where
  "maybeUpdateUSO E a w =
     (case download E (Request (md5Url (style a)) False) w of
        (Inl e, w1) \<Rightarrow> (Inl e, w1)
      | (Inr md5, w1) \<Rightarrow>
          if md5 = [] \<or> length md5 \<noteq> 32 then (Inl (Msg ERROR_MD5), w1)
          else if Some md5 = originalMd5 (style a) \<and> truthy (originalDigest (style a))
                  \<and> \<not> ignoreDigest a
          then (Inl (Msg SAME_MD5), w1)
          else (case download E (Request (updateUrl (style a)) True) w1 of
                  (Inl e, w2) \<Rightarrow> (Inl e, w2)
                | (Inr txt, w2) \<Rightarrow> (Inr (tryJSONparse E txt), w2)))"

definition build :: "env \<Rightarrow> style \<Rightarrow> world \<Rightarrow> (reason + json_val) \<times> world" where
  "build E json w =
     (case buildCode E json of
        Inl e \<Rightarrow> (Inl e, w\<lparr>built := built w @ [json]\<rparr>)
      | Inr d \<Rightarrow> (Inr (JObject d), w\<lparr>built := built w @ [json]\<rparr>))"

definition destructure_error :: reason where
  "destructure_error = Thrown ''TypeError: Cannot destructure property of undefined''"

definition maybeUpdateUsercss :: "env \<Rightarrow> args \<Rightarrow> world \<Rightarrow> (reason + json_val) \<times> world" where
  "maybeUpdateUsercss E a w =
     (case download E (Request (updateUrl (style a)) False) w of
        (Inl e, w1) \<Rightarrow> (Inl e, w1)
      | (Inr txt, w1) \<Rightarrow>
          (case buildMeta E txt of
             Inl e \<Rightarrow> (Inl e, w1)
           | Inr json \<Rightarrow>
               (case usercssData (style a) of
                  None \<Rightarrow> (Inl destructure_error, w1)
                | Some d \<Rightarrow>
                    (case usercssData json of
                       None \<Rightarrow> (Inl destructure_error, w1)
                     | Some nd \<Rightarrow>
                         let c = sgn (semverCompare E (version d) (version nd)) in
                         if c = 0 then
                           (if \<not> ignoreDigest a then (Inl (Msg SAME_VERSION), w1)
                            else if Some txt = sourceCode (style a)
                            then (Inl (Msg SAME_CODE), w1)
                            else build E json w1)
                         else if c = 1 then (Inl (Msg ERROR_VERSION), w1)
                         else build E json w1))))"

definition styleJSONseemsValid :: "style \<Rightarrow> reason + bool" where
  "styleJSONseemsValid json =
     (case sections json of
        NoSections \<Rightarrow> Inr False
      | NonArray \<Rightarrow> Inr False
      | SectionArray [] \<Rightarrow> Inr False
      | SectionArray (SectionNull # _) \<Rightarrow>
          Inl (Thrown ''TypeError: Cannot read property code of null'')
      | SectionArray (Section (CodeString _) # _) \<Rightarrow> Inr True
      | SectionArray (Section CodeOther # _) \<Rightarrow> Inr False)"

text \<open>The object \<open>{}\<close>, the default of \<open>maybeSave\<close>'s parameter.\<close>

definition empty_object :: style where
  "empty_object =
     \<lparr>sid = None, name = None, originalName = None, enabled = None, updateDate = None,
      reason = None, originalDigest = None, originalMd5 = None, md5Url = None,
      updateUrl = None, usercssData = None, sourceCode = None, sections = NoSections\<rparr>"

text \<open>
  Lines 170 to 182: the candidate gets the local id, the time and the reason
  \<open>update\<close>, loses \<open>enabled\<close>, and its name is dropped or becomes the original name.
\<close>

definition stamp :: "style \<Rightarrow> int \<Rightarrow> style \<Rightarrow> style" where
  "stamp s t json =
     (let j = json\<lparr>sid := sid s, updateDate := Some t, reason := Some ''update'',
                   enabled := None\<rparr>
      in if originalName s \<noteq> name s \<and> name s \<noteq> name j
         then j\<lparr>name := None\<rparr>
         else j\<lparr>originalName := name j\<rparr>)"

text \<open>
  Line 166: a candidate passes when it has \<open>usercssData\<close> or seems valid.
\<close>

definition validated :: "style \<Rightarrow> bool" where
  "validated json =
     ((if usercssData json = None then styleJSONseemsValid json else Inr True) = Inr True)"

definition save_method_of :: "style \<Rightarrow> save_method" where
  "save_method_of json = (if usercssData json \<noteq> None then SaveUsercss else SaveStyle)"

definition maybeSave_object :: "env \<Rightarrow> args \<Rightarrow> style \<Rightarrow> world \<Rightarrow> (reason + style) \<times> world" where
  "maybeSave_object E a json0 w =
     (case (if usercssData json0 = None then styleJSONseemsValid json0 else Inr True) of
        Inl e \<Rightarrow> (Inl e, w)
      | Inr False \<Rightarrow> (Inl (Msg ERROR_JSON), w)
      | Inr True \<Rightarrow>
          let json = stamp (style a) (now w) json0 in
          if styleSectionsEqual E (sections json) (sections (style a))
          then (Inl (Msg SAME_CODE),
                w\<lparr>writes := writes w @ [(SaveStyle, json\<lparr>reason := Some ''update-digest''\<rparr>)]\<rparr>)
          else if \<not> truthy (originalDigest (style a)) \<and> \<not> ignoreDigest a
          then (Inl (Msg MAYBE_EDITED), w)
          else if save a
          then (store E (save_method_of json) json,
                w\<lparr>writes := writes w @ [(save_method_of json, json)]\<rparr>)
          else (Inr json, w))"

definition maybeSave :: "env \<Rightarrow> args \<Rightarrow> json_val \<Rightarrow> world \<Rightarrow> (reason + style) \<times> world" where
  "maybeSave E a jv w =
     (case jv of
        JUndefined \<Rightarrow> maybeSave_object E a empty_object w
      | JNull \<Rightarrow> (Inl (Thrown ''TypeError: Cannot read property usercssData of null''), w)
      | JObject json \<Rightarrow> maybeSave_object E a json w)"

definition reportSuccess :: "env \<Rightarrow> args \<Rightarrow> style \<Rightarrow> world \<Rightarrow> outcome \<times> world" where
  "reportSuccess E a saved w =
     (let w1 = log E (UPDATED @ '' #'' @ show_id (sid (style a)) @ '' ''
                      @ show_name (name (style a))) w
      in (Resolved (Updated saved), postMessage (port a) (Updated saved) w1))"

text \<open>
  \<open>retrying\<close> is a \<open>Set\<close>. A Set has \<open>has\<close>, \<open>add\<close>, \<open>delete\<close> and \<open>clear\<close>
  but no \<open>get\<close>: \<open>retrying.get\<close> is \<open>undefined\<close> and calling it throws.
\<close>

definition retrying_get :: "nat option list \<Rightarrow> nat option \<Rightarrow> reason + bool" where
  "retrying_get s k = Inl (Thrown ''TypeError: retrying.get is not a function'')"

definition report_skip :: "env \<Rightarrow> args \<Rightarrow> reason \<Rightarrow> world \<Rightarrow> outcome \<times> world" where
  "report_skip E a err w =
     (let error = (if err = Status 0 then Msg ''server unreachable'' else err);
          w1 = log E (SKIPPED @ '' ('' @ show_reason error @ '') #''
                      @ show_id (sid (style a)) @ '' '' @ show_name (name (style a))) w;
          i = Skipped error (getStyleWithNoCode E (style a))
      in (Resolved i, postMessage (port a) i w1))"

text \<open>
  \<open>reportFailure\<close>. The retry would call \<open>checkStyle\<close> from a timer after 1000 ms; the
  promise is then left waiting for it (\<open>RetryAfter\<close>).
\<close>

definition reportFailure :: "env \<Rightarrow> args \<Rightarrow> reason \<Rightarrow> world \<Rightarrow> outcome \<times> world" where
  "reportFailure E a err w =
     (if err = Status 503 then
        (case retrying_get (retrying w) (arg_id a) of
           Inl exn \<Rightarrow> (Rejected exn, w)
         | Inr found \<Rightarrow>
             if \<not> found then (RetryAfter 1000, w\<lparr>retrying := retrying w @ [arg_id a]\<rparr>)
             else report_skip E a err w)
      else report_skip E a err w)"

text \<open>
  The chain of \<open>checkStyle\<close>, lines 89 to 93. \<open>candidate\<close> is the part before
  \<open>maybeSave\<close>: the digest and the edit guard unless \<open>ignoreDigest\<close>, then the
  download step chosen by \<open>style.usercssData\<close>. It ends with the value handed to
  \<open>maybeSave\<close> or with a rejection. \<open>chain\<close> adds \<open>maybeSave\<close>.
\<close>

definition candidate :: "env \<Rightarrow> args \<Rightarrow> world \<Rightarrow> (reason + json_val) \<times> world" where
  "candidate E a w =
     (case (if \<not> ignoreDigest a
            then checkIfEdited (style a) (calcStyleDigest E (style a)) else Inr ()) of
        Inl e \<Rightarrow> (Inl e, w)
      | Inr _ \<Rightarrow>
          (if usercssData (style a) \<noteq> None then maybeUpdateUsercss E a w
           else maybeUpdateUSO E a w))"

definition chain :: "env \<Rightarrow> args \<Rightarrow> world \<Rightarrow> (reason + style) \<times> world" where
  "chain E a w =
     (case candidate E a w of
        (Inl e, w1) \<Rightarrow> (Inl e, w1)
      | (Inr jv, w1) \<Rightarrow> maybeSave E a jv w1)"

definition checkStyle :: "env \<Rightarrow> args \<Rightarrow> world \<Rightarrow> outcome \<times> world" where
  "checkStyle E a w =
     (case chain E a w of
        (Inl e, w1) \<Rightarrow> reportFailure E a e w1
      | (Inr saved, w1) \<Rightarrow> reportSuccess E a saved w1)"

subsection \<open>The scheduler\<close>

definition schedule :: "world \<Rightarrow> world" where
  "schedule w =
     (let interval = updateInterval w * 60 * 60 * 1000 in
      if interval \<noteq> 0 then
        (let elapsed = max 0 (now w - lastUpdateTime w)
         in debounce CheckAllStyles (max 10000 (interval - elapsed)) w)
      else debounce_unregister CheckAllStyles w)"

definition resetInterval :: "world \<Rightarrow> world" where
  "resetInterval w = schedule (w\<lparr>lastUpdateTime := now w\<rparr>)"

subsection \<open>The activity log\<close>






subsection \<open>Example inputs\<close>

text \<open>
  Two installed styles, a legacy one with an MD5 url and a usercss one with a version,
  and collaborators that answer for them. The digest of every style is \<open>d1\<close>, so both
  styles are unedited.
\<close>

definition local_sections :: sections_val where
  "local_sections = SectionArray [Section (CodeString ''body { color: red }'')]"

definition legacy_style :: style where
  "legacy_style =
     \<lparr>sid = Some 1, name = Some ''Dark'', originalName = Some ''Dark'', enabled = Some True,
      updateDate = None, reason = None, originalDigest = Some ''d1'',
      originalMd5 = Some ''0123456789abcdef0123456789abcdef'',
      md5Url = Some ''https://example.org/1.md5'',
      updateUrl = Some ''https://example.org/1.json'',
      usercssData = None, sourceCode = None, sections = local_sections\<rparr>"

definition usercss_style :: style where
  "usercss_style =
     \<lparr>sid = Some 2, name = Some ''Solar'', originalName = Some ''Solar'', enabled = Some True,
      updateDate = None, reason = None, originalDigest = Some ''d1'',
      originalMd5 = None, md5Url = None,
      updateUrl = Some ''https://example.org/2.user.css'',
      usercssData = Some \<lparr>version = ''1.0.0''\<rparr>,
      sourceCode = Some ''/* @version 1.0.0 */ body { color: red }'',
      sections = local_sections\<rparr>"

definition remote_doc :: style where
  "remote_doc =
     \<lparr>sid = Some 77, name = Some ''Dark'', originalName = None, enabled = Some False,
      updateDate = None, reason = None, originalDigest = None, originalMd5 = None,
      md5Url = None, updateUrl = None, usercssData = None, sourceCode = None,
      sections = local_sections\<rparr>"

definition changed_doc :: style where
  "changed_doc =
     remote_doc\<lparr>sections := SectionArray [Section (CodeString ''body { color: blue }'')]\<rparr>"

definition remote_meta :: style where
  "remote_meta = usercss_style\<lparr>sid := None, originalDigest := None\<rparr>"

definition example_env :: env where
  "example_env =
     \<lparr>calcStyleDigest = (\<lambda>s. ''d1''),
      server = (\<lambda>n r. if r = Request (Some ''https://example.org/1.md5'') False
                       then Inr ''0123456789abcdef0123456789abcdef''
                       else if r = Request (Some ''https://example.org/1.json'') True
                       then Inr ''{}''
                       else if r = Request (Some ''https://example.org/2.user.css'') False
                       then Inr ''/* @version 1.0.0 */ body { color: red }''
                       else Inl 404),
      tryJSONparse = (\<lambda>t. JObject remote_doc),
      buildMeta = (\<lambda>t. Inr remote_meta),
      buildCode = Inr,
      semverCompare = (\<lambda>u v. if u = v then 0
                              else if u = ''1.0.0'' \<and> v = ''0.9.0'' then 1 else - 1),
      styleSectionsEqual = (=),
      getStyleWithNoCode = (\<lambda>s. s\<lparr>sourceCode := None, sections := NoSections\<rparr>),
      store = (\<lambda>m d. Inr d),
      toLocaleString = (\<lambda>t. ''1/1/2018, 12:00:00 AM'')\<rparr>"

definition example_world :: world where
  "example_world =
     \<lparr>fetched = [], built = [], writes = [], posted = [], logQueue = [],
      timers = (\<lambda>c. None), retrying = [], checkingAll = False, now = 100000,
      lastUpdateTime = 0, logLastWriteTime = 0, storage = (\<lambda>k. None),
      updateInterval = 24\<rparr>"

definition legacy_args :: args where
  "legacy_args =
     \<lparr>arg_id = Some 1, style = legacy_style, port = False, save = True,
      ignoreDigest = False\<rparr>"

definition usercss_args :: args where
  "usercss_args =
     \<lparr>arg_id = Some 2, style = usercss_style, port = True, save = True,
      ignoreDigest = False\<rparr>"

text \<open>The same styles after a local edit: the stored digest is no longer the current one.\<close>

definition edited_legacy_args :: args where
  "edited_legacy_args = legacy_args\<lparr>style := legacy_style\<lparr>originalDigest := Some ''d0''\<rparr>\<rparr>"

definition edited_usercss_args :: args where
  "edited_usercss_args = usercss_args\<lparr>style := usercss_style\<lparr>originalDigest := Some ''d0''\<rparr>\<rparr>"

text \<open>A legacy style whose stored MD5 is not a 32 character hash, and a server that
  answers with the same text.\<close>

definition short_md5_args :: args where
  "short_md5_args = legacy_args\<lparr>style := legacy_style\<lparr>originalMd5 := Some ''abc''\<rparr>\<rparr>"

definition short_md5_env :: env where
  "short_md5_env = example_env\<lparr>server := (\<lambda>n r. Inr ''abc'')\<rparr>"

text \<open>
  A legacy style whose stored MD5 is older than the server's, so that the full document
  is downloaded; without a stored digest; and a server whose document has new code.
\<close>

definition stale_legacy_args :: args where
  "stale_legacy_args =
     legacy_args\<lparr>style := legacy_style\<lparr>originalMd5 := Some ''ffffffffffffffffffffffffffffffff''\<rparr>\<rparr>"

definition fresh_legacy_args :: args where
  "fresh_legacy_args =
     legacy_args\<lparr>style := legacy_style\<lparr>originalMd5 := None, originalDigest := None\<rparr>\<rparr>"

definition changed_env :: env where
  "changed_env = example_env\<lparr>tryJSONparse := (\<lambda>t. JObject changed_doc)\<rparr>"

text \<open>Servers that fail: the first download with status 503, every download with 0.\<close>

definition busy_env :: env where
  "busy_env = changed_env\<lparr>server := (\<lambda>n r. if n = 0 then Inl 503 else server changed_env n r)\<rparr>"

definition unreachable_env :: env where
  "unreachable_env = example_env\<lparr>server := (\<lambda>n r. Inl 0)\<rparr>"

text \<open>Remote usercss metadata of an older and of a newer version.\<close>

definition older_env :: env where
  "older_env =
     example_env\<lparr>buildMeta := (\<lambda>t. Inr (remote_meta\<lparr>usercssData := Some \<lparr>version = ''0.9.0''\<rparr>\<rparr>))\<rparr>"

definition newer_env :: env where
  "newer_env =
     example_env\<lparr>buildMeta := (\<lambda>t. Inr (remote_meta\<lparr>usercssData := Some \<lparr>version = ''1.1.0''\<rparr>\<rparr>))\<rparr>"





lemmas example_defs =
  local_sections_def legacy_style_def usercss_style_def remote_doc_def changed_doc_def
  remote_meta_def example_env_def example_world_def legacy_args_def usercss_args_def
  edited_legacy_args_def edited_usercss_args_def short_md5_args_def short_md5_env_def
  stale_legacy_args_def fresh_legacy_args_def changed_env_def busy_env_def
  unreachable_env_def older_env_def newer_env_def

section \<open>Properties\<close>

subsection \<open>Auxiliary facts\<close>

lemma stamp_sections: "sections (stamp s t json) = sections json"
  by (simp add: stamp_def Let_def)

lemma stamp_reason: "reason (stamp s t json) = Some ''update''"
  by (simp add: stamp_def Let_def)

lemma maybeUpdateUSO_writes: "writes (snd (maybeUpdateUSO E a w)) = writes w"
  by (simp add: maybeUpdateUSO_def download_def split: sum.splits prod.splits)

lemma maybeUpdateUsercss_writes: "writes (snd (maybeUpdateUsercss E a w)) = writes w"
  by (simp add: maybeUpdateUsercss_def download_def build_def Let_def
      split: sum.splits prod.splits option.splits)

lemma candidate_writes: "writes (snd (candidate E a w)) = writes w"
  by (simp add: candidate_def maybeUpdateUSO_writes maybeUpdateUsercss_writes split: sum.splits)

lemma maybeSave_object_equal:
  assumes "validated json" and "styleSectionsEqual E (sections json) (sections (style a))"
  shows "maybeSave_object E a json w =
           (Inl (Msg SAME_CODE),
            w\<lparr>writes := writes w @
                 [(SaveStyle, (stamp (style a) (now w) json)\<lparr>reason := Some ''update-digest''\<rparr>)]\<rparr>)"
  using assms by (simp add: maybeSave_object_def validated_def stamp_sections Let_def)

lemma maybeSave_object_maybe_edited:
  assumes "validated json" and "\<not> styleSectionsEqual E (sections json) (sections (style a))"
    and "\<not> truthy (originalDigest (style a))" and "\<not> ignoreDigest a"
  shows "maybeSave_object E a json w = (Inl (Msg MAYBE_EDITED), w)"
  using assms by (simp add: maybeSave_object_def validated_def stamp_sections Let_def)

lemma report_skip_fst:
  "fst (report_skip E a e w) =
     Resolved (Skipped (if e = Status 0 then Msg ''server unreachable'' else e)
                 (getStyleWithNoCode E (style a)))"
  by (simp add: report_skip_def Let_def)

lemma report_skip_writes: "writes (snd (report_skip E a e w)) = writes w"
  by (simp add: report_skip_def Let_def log_def debounce_def postMessage_def)

lemma report_skip_fetched: "fetched (snd (report_skip E a e w)) = fetched w"
  by (simp add: report_skip_def Let_def log_def debounce_def postMessage_def)

lemma reportFailure_other: "e \<noteq> Status 503 \<Longrightarrow> reportFailure E a e w = report_skip E a e w"
  by (simp add: reportFailure_def)

subsection \<open>The edit guard\<close>

text \<open>
  Claim C1. A style whose \<open>originalDigest\<close> is set (a non-empty string) and differs
  from the digest computed now, checked with \<open>ignoreDigest\<close> false: the check resolves
  with the skip reason EDITED, and the run writes nothing to the style store, neither a
  full save nor a digest refresh. It does not download anything either.
\<close>

theorem edited_style_is_skipped:
  assumes "truthy (originalDigest (style a))"
    and "originalDigest (style a) \<noteq> Some (calcStyleDigest E (style a))"
    and "\<not> ignoreDigest a"
  shows "fst (checkStyle E a w) =
           Resolved (Skipped (Msg EDITED) (getStyleWithNoCode E (style a)))
       \<and> writes (snd (checkStyle E a w)) = writes w
       \<and> fetched (snd (checkStyle E a w)) = fetched w"
proof -
  have "candidate E a w = (Inl (Msg EDITED), w)"
    using assms by (simp add: candidate_def checkIfEdited_def)
  then have "checkStyle E a w = report_skip E a (Msg EDITED) w"
    by (simp add: checkStyle_def chain_def reportFailure_other)
  then show ?thesis
    by (simp add: report_skip_fst report_skip_writes report_skip_fetched)
qed

theorem edited_style_is_skipped_witness:
  "truthy (originalDigest (style edited_usercss_args))
   \<and> originalDigest (style edited_usercss_args)
       \<noteq> Some (calcStyleDigest example_env (style edited_usercss_args))
   \<and> \<not> ignoreDigest edited_usercss_args
   \<and> fst (checkStyle example_env edited_usercss_args example_world) =
       Resolved (Skipped (Msg ''locally edited'')
         (usercss_style\<lparr>originalDigest := Some ''d0'', sourceCode := None,
                         sections := NoSections\<rparr>))
   \<and> writes (snd (checkStyle example_env edited_usercss_args example_world)) = []
   \<and> fetched (snd (checkStyle example_env edited_usercss_args example_world)) = []"
  using edited_style_is_skipped [of edited_usercss_args example_env example_world]
  by (simp add: example_defs truthy_def EDITED_def)

subsection \<open>The legacy path\<close>

text \<open>
  Claim C2, as stated, fails: the edit guard runs before the MD5 is downloaded, and the
  downloaded MD5 is checked for its length before it is compared. An edited legacy style
  whose MD5 on the server is the stored one is skipped as EDITED, without any download;
  and a stored MD5 of three characters that the server repeats gives ERROR_MD5.
\<close>

theorem same_md5_counterexample:
  "usercssData (style edited_legacy_args) = None
   \<and> \<not> ignoreDigest edited_legacy_args
   \<and> truthy (originalDigest (style edited_legacy_args))
   \<and> server example_env 0 (Request (md5Url (style edited_legacy_args)) False)
       = Inr ''0123456789abcdef0123456789abcdef''
   \<and> originalMd5 (style edited_legacy_args) = Some ''0123456789abcdef0123456789abcdef''
   \<and> fst (checkStyle example_env edited_legacy_args example_world) =
       Resolved (Skipped (Msg ''locally edited'')
         (legacy_style\<lparr>originalDigest := Some ''d0'', sourceCode := None,
                        sections := NoSections\<rparr>))
   \<and> fetched (snd (checkStyle example_env edited_legacy_args example_world)) = []
   \<and> usercssData (style short_md5_args) = None
   \<and> \<not> ignoreDigest short_md5_args
   \<and> truthy (originalDigest (style short_md5_args))
   \<and> server short_md5_env 0 (Request (md5Url (style short_md5_args)) False) = Inr ''abc''
   \<and> originalMd5 (style short_md5_args) = Some ''abc''
   \<and> fst (checkStyle short_md5_env short_md5_args example_world) =
       Resolved (Skipped (Msg ''error: MD5 is invalid'')
         (legacy_style\<lparr>originalMd5 := Some ''abc'', sourceCode := None,
                        sections := NoSections\<rparr>))"
  by (simp add: example_defs truthy_def EDITED_def ERROR_MD5_def checkStyle_def chain_def
      candidate_def checkIfEdited_def maybeUpdateUSO_def download_def reportFailure_def
      report_skip_def log_def debounce_def postMessage_def Let_def)

text \<open>
  Claim C2, amended. A legacy style that passes the edit guard (its \<open>originalDigest\<close>
  is set and is the current digest), checked with \<open>ignoreDigest\<close> false, for which the
  server answers with an MD5 of 32 characters that is the stored \<open>originalMd5\<close>: the
  check resolves with the skip reason SAME_MD5, and the MD5 request is the only download
  of the run, so the full document is not fetched. Nothing is written.
\<close>

theorem same_md5_after_guard:
  assumes "usercssData (style a) = None"
    and "\<not> ignoreDigest a"
    and "truthy (originalDigest (style a))"
    and "originalDigest (style a) = Some (calcStyleDigest E (style a))"
    and "server E (length (fetched w)) (Request (md5Url (style a)) False) = Inr md5"
    and "Some md5 = originalMd5 (style a)"
    and "length md5 = 32"
  shows "fst (checkStyle E a w) =
           Resolved (Skipped (Msg SAME_MD5) (getStyleWithNoCode E (style a)))
       \<and> fetched (snd (checkStyle E a w)) = fetched w @ [Request (md5Url (style a)) False]
       \<and> writes (snd (checkStyle E a w)) = writes w"
proof -
  have "md5 \<noteq> []" using assms(7) by auto
  then have "maybeUpdateUSO E a w =
      (Inl (Msg SAME_MD5), w\<lparr>fetched := fetched w @ [Request (md5Url (style a)) False]\<rparr>)"
    using assms by (simp add: maybeUpdateUSO_def download_def)
  then have "candidate E a w =
      (Inl (Msg SAME_MD5), w\<lparr>fetched := fetched w @ [Request (md5Url (style a)) False]\<rparr>)"
    using assms by (simp add: candidate_def checkIfEdited_def)
  then have "checkStyle E a w = report_skip E a (Msg SAME_MD5)
      (w\<lparr>fetched := fetched w @ [Request (md5Url (style a)) False]\<rparr>)"
    by (simp add: checkStyle_def chain_def reportFailure_other)
  then show ?thesis
    by (simp add: report_skip_fst report_skip_writes report_skip_fetched)
qed

theorem same_md5_after_guard_witness:
  "usercssData (style legacy_args) = None
   \<and> \<not> ignoreDigest legacy_args
   \<and> originalDigest (style legacy_args) = Some (calcStyleDigest example_env (style legacy_args))
   \<and> originalMd5 (style legacy_args) = Some ''0123456789abcdef0123456789abcdef''
   \<and> fst (checkStyle example_env legacy_args example_world) =
       Resolved (Skipped (Msg ''up-to-date: MD5 is unchanged'')
         (legacy_style\<lparr>sourceCode := None, sections := NoSections\<rparr>))
   \<and> fetched (snd (checkStyle example_env legacy_args example_world)) =
       [Request (Some ''https://example.org/1.md5'') False]
   \<and> writes (snd (checkStyle example_env legacy_args example_world)) = []"
proof -
  let ?md5 = "''0123456789abcdef0123456789abcdef''"
  have 1: "usercssData (style legacy_args) = None"
    and 2: "\<not> ignoreDigest legacy_args"
    and 3: "truthy (originalDigest (style legacy_args))"
    and 4: "originalDigest (style legacy_args)
              = Some (calcStyleDigest example_env (style legacy_args))"
    and 5: "server example_env (length (fetched example_world))
              (Request (md5Url (style legacy_args)) False) = Inr ?md5"
    and 6: "Some ?md5 = originalMd5 (style legacy_args)"
    and 7: "length ?md5 = 32"
    by (simp_all add: example_defs truthy_def)
  have g: "getStyleWithNoCode example_env (style legacy_args)
             = legacy_style\<lparr>sourceCode := None, sections := NoSections\<rparr>"
    by (simp add: example_env_def legacy_args_def)
  have u: "md5Url (style legacy_args) = Some ''https://example.org/1.md5''"
    by (simp add: legacy_args_def legacy_style_def)
  have e: "fetched example_world = []" "writes example_world = []"
    by (simp_all add: example_world_def)
  from same_md5_after_guard [OF 1 2 3 4 5 6 7] 1 2 4 6 show ?thesis
    unfolding g u e SAME_MD5_def by simp
qed

subsection \<open>The versioned path\<close>

text \<open>
  Claim C3. The version comparison of \<open>maybeUpdateUsercss\<close>, once the remote text is
  downloaded and its metadata are built. \<open>semverCompare\<close> of the local and the remote
  version is zero when they are equal, positive when the remote version is older and
  negative when it is newer. Equal versions without \<open>ignoreDigest\<close> reject with
  SAME_VERSION; equal versions with \<open>ignoreDigest\<close> and a remote text that is the stored
  \<open>sourceCode\<close> reject with SAME_CODE; an older remote version rejects with
  ERROR_VERSION whatever \<open>ignoreDigest\<close> is; and \<open>usercss.buildCode\<close> is called
  exactly when the remote version is newer, or equal with \<open>ignoreDigest\<close> and a text
  that differs.
\<close>

theorem version_branch:
  assumes "server E (length (fetched w)) (Request (updateUrl (style a)) False) = Inr txt"
    and "buildMeta E txt = Inr json"
    and "usercssData (style a) = Some d"
    and "usercssData json = Some nd"
    and "c = semverCompare E (version d) (version nd)"
    and "r = maybeUpdateUsercss E a w"
  shows "(c = 0 \<and> \<not> ignoreDigest a
            \<longrightarrow> fst r = Inl (Msg SAME_VERSION) \<and> built (snd r) = built w)
       \<and> (c = 0 \<and> ignoreDigest a \<and> Some txt = sourceCode (style a)
            \<longrightarrow> fst r = Inl (Msg SAME_CODE) \<and> built (snd r) = built w)
       \<and> (c > 0 \<longrightarrow> fst r = Inl (Msg ERROR_VERSION) \<and> built (snd r) = built w)
       \<and> (built (snd r) = built w @ [json]
            \<longleftrightarrow> c < 0 \<or> (c = 0 \<and> ignoreDigest a \<and> Some txt \<noteq> sourceCode (style a)))"
  using assms
  by (auto simp add: maybeUpdateUsercss_def download_def build_def Let_def sgn_if
      split: sum.splits)

theorem version_branch_witness:
  "fst (maybeUpdateUsercss example_env usercss_args example_world)
     = Inl (Msg ''up-to-date: version is unchanged'')
   \<and> fst (maybeUpdateUsercss example_env (usercss_args\<lparr>ignoreDigest := True\<rparr>) example_world)
     = Inl (Msg ''up-to-date: code sections are unchanged'')
   \<and> fst (maybeUpdateUsercss older_env (usercss_args\<lparr>ignoreDigest := True\<rparr>) example_world)
     = Inl (Msg ''error: version is older than installed style'')
   \<and> built (snd (maybeUpdateUsercss newer_env usercss_args example_world))
     = [remote_meta\<lparr>usercssData := Some \<lparr>version = ''1.1.0''\<rparr>\<rparr>]"
proof -
  let ?txt = "''/* @version 1.0.0 */ body { color: red }''"
  let ?forced = "usercss_args\<lparr>ignoreDigest := True\<rparr>"
  let ?older = "remote_meta\<lparr>usercssData := Some \<lparr>version = ''0.9.0''\<rparr>\<rparr>"
  let ?newer = "remote_meta\<lparr>usercssData := Some \<lparr>version = ''1.1.0''\<rparr>\<rparr>"
  have s1: "server example_env (length (fetched example_world))
              (Request (updateUrl (style usercss_args)) False) = Inr ?txt"
    and s2: "server example_env (length (fetched example_world))
              (Request (updateUrl (style ?forced)) False) = Inr ?txt"
    and s3: "server older_env (length (fetched example_world))
              (Request (updateUrl (style ?forced)) False) = Inr ?txt"
    and s4: "server newer_env (length (fetched example_world))
              (Request (updateUrl (style usercss_args)) False) = Inr ?txt"
    by (simp_all add: example_defs)
  have m1: "buildMeta example_env ?txt = Inr remote_meta"
    and m3: "buildMeta older_env ?txt = Inr ?older"
    and m4: "buildMeta newer_env ?txt = Inr ?newer"
    by (simp_all add: example_defs)
  have l1: "usercssData (style usercss_args) = Some \<lparr>version = ''1.0.0''\<rparr>"
    and l2: "usercssData (style ?forced) = Some \<lparr>version = ''1.0.0''\<rparr>"
    by (simp_all add: example_defs)
  have r1: "usercssData remote_meta = Some \<lparr>version = ''1.0.0''\<rparr>"
    and r3: "usercssData ?older = Some \<lparr>version = ''0.9.0''\<rparr>"
    and r4: "usercssData ?newer = Some \<lparr>version = ''1.1.0''\<rparr>"
    by (simp_all add: example_defs)
  have c1: "(0::int) = semverCompare example_env (version \<lparr>version = ''1.0.0''\<rparr>)
              (version \<lparr>version = ''1.0.0''\<rparr>)"
    and c3: "(1::int) = semverCompare older_env (version \<lparr>version = ''1.0.0''\<rparr>)
              (version \<lparr>version = ''0.9.0''\<rparr>)"
    and c4: "(- 1::int) = semverCompare newer_env (version \<lparr>version = ''1.0.0''\<rparr>)
              (version \<lparr>version = ''1.1.0''\<rparr>)"
    by (simp_all add: example_defs)
  have 1: "fst (maybeUpdateUsercss example_env usercss_args example_world)
     = Inl (Msg ''up-to-date: version is unchanged'')"
    using version_branch [OF s1 m1 l1 r1 c1 refl]
    by (simp add: SAME_VERSION_def usercss_args_def)
  have 2: "fst (maybeUpdateUsercss example_env ?forced example_world)
     = Inl (Msg ''up-to-date: code sections are unchanged'')"
    using version_branch [OF s2 m1 l2 r1 c1 refl]
    by (simp add: SAME_CODE_def usercss_args_def usercss_style_def)
  have 3: "fst (maybeUpdateUsercss older_env ?forced example_world)
     = Inl (Msg ''error: version is older than installed style'')"
    using version_branch [OF s3 m3 l2 r3 c3 refl]
    by (simp add: ERROR_VERSION_def)
  have 4: "built (snd (maybeUpdateUsercss newer_env usercss_args example_world)) = [?newer]"
    using version_branch [OF s4 m4 l1 r4 c4 refl]
    by (simp add: example_world_def)
  from 1 2 3 4 show ?thesis by simp
qed

subsection \<open>The save guard\<close>

text \<open>
  Claim C4. A run reaches the save guard with a candidate document when the chain before
  \<open>maybeSave\<close> ends with an object, and the object passes the check of line 166,
  which rejects a malformed document with ERROR_JSON (the structural check that closes
  the legacy path; a usercss candidate was validated while it was built). If the
  candidate's code sections equal the local ones, the check resolves with the skip reason
  SAME_CODE, never with an update, and the one write of the run is the digest refresh:
  the stamped candidate, through \<open>saveStyle\<close>. Nothing is assumed about \<open>save\<close>, so
  this holds when \<open>save\<close> is false.
\<close>

theorem equal_sections_refresh_digest:
  assumes "candidate E a w = (Inr (JObject json), w1)"
    and "validated json"
    and "styleSectionsEqual E (sections json) (sections (style a))"
  shows "fst (checkStyle E a w) =
           Resolved (Skipped (Msg SAME_CODE) (getStyleWithNoCode E (style a)))
       \<and> writes (snd (checkStyle E a w)) = writes w @
           [(SaveStyle, (stamp (style a) (now w1) json)\<lparr>reason := Some ''update-digest''\<rparr>)]"
proof -
  let ?patch = "(stamp (style a) (now w1) json)\<lparr>reason := Some ''update-digest''\<rparr>"
  have w1: "writes w1 = writes w"
    using candidate_writes [of E a w] assms(1) by simp
  have "chain E a w = (Inl (Msg SAME_CODE), w1\<lparr>writes := writes w1 @ [(SaveStyle, ?patch)]\<rparr>)"
    using assms by (simp add: chain_def maybeSave_def maybeSave_object_equal)
  then have "checkStyle E a w =
      report_skip E a (Msg SAME_CODE) (w1\<lparr>writes := writes w1 @ [(SaveStyle, ?patch)]\<rparr>)"
    by (simp add: checkStyle_def reportFailure_other)
  then show ?thesis
    by (simp add: report_skip_fst report_skip_writes w1)
qed

theorem equal_sections_refresh_digest_witness:
  "\<not> save (stale_legacy_args\<lparr>save := False\<rparr>)
   \<and> validated remote_doc
   \<and> styleSectionsEqual example_env (sections remote_doc)
        (sections (style (stale_legacy_args\<lparr>save := False\<rparr>)))
   \<and> fst (checkStyle example_env (stale_legacy_args\<lparr>save := False\<rparr>) example_world) =
       Resolved (Skipped (Msg ''up-to-date: code sections are unchanged'')
         (legacy_style\<lparr>originalMd5 := Some ''ffffffffffffffffffffffffffffffff'',
                        sourceCode := None, sections := NoSections\<rparr>))
   \<and> writes (snd (checkStyle example_env (stale_legacy_args\<lparr>save := False\<rparr>) example_world)) =
       [(SaveStyle, remote_doc\<lparr>sid := Some 1, updateDate := Some 100000,
           reason := Some ''update-digest'', enabled := None,
           originalName := Some ''Dark''\<rparr>)]"
proof -
  have c: "candidate example_env (stale_legacy_args\<lparr>save := False\<rparr>) example_world =
      (Inr (JObject remote_doc),
       example_world\<lparr>fetched := [Request (Some ''https://example.org/1.md5'') False,
                                  Request (Some ''https://example.org/1.json'') True]\<rparr>)"
    by (simp add: example_defs candidate_def checkIfEdited_def truthy_def maybeUpdateUSO_def
        download_def)
  have v: "validated remote_doc"
    by (simp add: example_defs validated_def styleJSONseemsValid_def)
  have e: "styleSectionsEqual example_env (sections remote_doc)
        (sections (style (stale_legacy_args\<lparr>save := False\<rparr>)))"
    by (simp add: example_defs)
  from equal_sections_refresh_digest [OF c v e] v e show ?thesis
    by (simp add: example_defs SAME_CODE_def stamp_def Let_def)
qed

text \<open>
  Claim C5. A run that reaches the save guard with a candidate whose code sections differ
  from the local ones, for a style without \<open>originalDigest\<close> and with \<open>ignoreDigest\<close>
  false: the check resolves with the skip reason MAYBE_EDITED and the run writes nothing
  to the style store.
\<close>

theorem differing_sections_maybe_edited:
  assumes "candidate E a w = (Inr (JObject json), w1)"
    and "validated json"
    and "\<not> styleSectionsEqual E (sections json) (sections (style a))"
    and "\<not> truthy (originalDigest (style a))"
    and "\<not> ignoreDigest a"
  shows "fst (checkStyle E a w) =
           Resolved (Skipped (Msg MAYBE_EDITED) (getStyleWithNoCode E (style a)))
       \<and> writes (snd (checkStyle E a w)) = writes w"
proof -
  have w1: "writes w1 = writes w"
    using candidate_writes [of E a w] assms(1) by simp
  have "chain E a w = (Inl (Msg MAYBE_EDITED), w1)"
    using assms by (simp add: chain_def maybeSave_def maybeSave_object_maybe_edited)
  then have "checkStyle E a w = report_skip E a (Msg MAYBE_EDITED) w1"
    by (simp add: checkStyle_def reportFailure_other)
  then show ?thesis
    by (simp add: report_skip_fst report_skip_writes w1)
qed

theorem differing_sections_maybe_edited_witness:
  "validated changed_doc
   \<and> \<not> styleSectionsEqual changed_env (sections changed_doc) (sections (style fresh_legacy_args))
   \<and> \<not> truthy (originalDigest (style fresh_legacy_args))
   \<and> \<not> ignoreDigest fresh_legacy_args
   \<and> save fresh_legacy_args
   \<and> fst (checkStyle changed_env fresh_legacy_args example_world) =
       Resolved (Skipped (Msg ''may be locally edited'')
         (legacy_style\<lparr>originalMd5 := None, originalDigest := None,
                        sourceCode := None, sections := NoSections\<rparr>))
   \<and> writes (snd (checkStyle changed_env fresh_legacy_args example_world)) = []"
proof -
  have c: "candidate changed_env fresh_legacy_args example_world =
      (Inr (JObject changed_doc),
       example_world\<lparr>fetched := [Request (Some ''https://example.org/1.md5'') False,
                                  Request (Some ''https://example.org/1.json'') True]\<rparr>)"
    by (simp add: example_defs candidate_def checkIfEdited_def truthy_def maybeUpdateUSO_def
        download_def)
  have v: "validated changed_doc"
    by (simp add: example_defs validated_def styleJSONseemsValid_def)
  have e: "\<not> styleSectionsEqual changed_env (sections changed_doc)
        (sections (style fresh_legacy_args))"
    by (simp add: example_defs)
  have t: "\<not> truthy (originalDigest (style fresh_legacy_args))"
    by (simp add: example_defs truthy_def)
  have i: "\<not> ignoreDigest fresh_legacy_args"
    by (simp add: example_defs)
  from differing_sections_maybe_edited [OF c v e t i] v e t i show ?thesis
    by (simp add: example_defs MAYBE_EDITED_def)
qed

text \<open>
  Claim C10. \<open>maybeSave\<close> stamps the candidate with the reason \<open>update\<close>. Every
  document it writes carries \<open>update-digest\<close> when its code sections equal the local
  ones and \<open>update\<close> otherwise. For a candidate that passes the validation the writes
  are known: the digest refresh, which is the stamped candidate with its reason
  overwritten by \<open>update-digest\<close>, when the sections are equal; the stamped candidate
  itself, with the reason \<open>update\<close>, when they differ and the update is saved; nothing
  otherwise.
\<close>

theorem save_reasons:
  "reason (stamp (style a) (now w) json) = Some ''update''
   \<and> list_all (\<lambda>(m, d). reason d =
         Some (if styleSectionsEqual E (sections d) (sections (style a))
               then ''update-digest'' else ''update''))
       (drop (length (writes w)) (writes (snd (maybeSave E a (JObject json) w))))
   \<and> (validated json \<longrightarrow>
        writes (snd (maybeSave E a (JObject json) w)) = writes w @
          (if styleSectionsEqual E (sections json) (sections (style a))
           then [(SaveStyle, (stamp (style a) (now w) json)\<lparr>reason := Some ''update-digest''\<rparr>)]
           else if save a \<and> (truthy (originalDigest (style a)) \<or> ignoreDigest a)
           then [(save_method_of (stamp (style a) (now w) json), stamp (style a) (now w) json)]
           else []))"
  by (simp add: maybeSave_def maybeSave_object_def validated_def stamp_sections stamp_reason Let_def
      split: sum.splits bool.splits)

theorem save_reasons_witness:
  "validated remote_doc \<and> validated changed_doc
   \<and> drop (length (writes example_world))
      (writes (snd (maybeSave example_env stale_legacy_args (JObject remote_doc) example_world)))
     = [(SaveStyle, remote_doc\<lparr>sid := Some 1, updateDate := Some 100000,
           reason := Some ''update-digest'', enabled := None,
           originalName := Some ''Dark''\<rparr>)]
   \<and> drop (length (writes example_world))
      (writes (snd (maybeSave example_env stale_legacy_args (JObject changed_doc) example_world)))
     = [(SaveStyle, changed_doc\<lparr>sid := Some 1, updateDate := Some 100000,
           reason := Some ''update'', enabled := None,
           originalName := Some ''Dark''\<rparr>)]"
  using save_reasons [of stale_legacy_args example_world remote_doc example_env]
    save_reasons [of stale_legacy_args example_world changed_doc example_env]
  by (simp add: example_defs maybeSave_def maybeSave_object_def styleJSONseemsValid_def
      validated_def stamp_def truthy_def save_method_of_def Let_def)

subsection \<open>Reporting\<close>

text \<open>
  Claim C6. The code does not retry. When the chain fails with status 503,
  \<open>reportFailure\<close> evaluates \<open>retrying.get(id)\<close> on a Set, which throws: the promise
  of \<open>checkStyle\<close> is rejected with the TypeError, with the world as the chain left it.
  No retry is armed, the id is not recorded in \<open>retrying\<close>, and neither a success nor a
  skip is logged or reported. The example is a style whose first download fails with 503
  and whose check succeeds when no download fails.
\<close>

theorem service_unavailable_rejects:
  assumes "chain E a w = (Inl (Status 503), w1)"
  shows "checkStyle E a w = (Rejected (Thrown ''TypeError: retrying.get is not a function''), w1)"
  using assms by (simp add: checkStyle_def reportFailure_def retrying_get_def)

theorem service_unavailable_rejects_witness:
  "server busy_env 0 (Request (md5Url (style stale_legacy_args)) False) = Inl 503
   \<and> fst (checkStyle busy_env stale_legacy_args example_world) =
       Rejected (Thrown ''TypeError: retrying.get is not a function'')
   \<and> fetched (snd (checkStyle busy_env stale_legacy_args example_world)) =
       [Request (Some ''https://example.org/1.md5'') False]
   \<and> logQueue (snd (checkStyle busy_env stale_legacy_args example_world)) = []
   \<and> retrying (snd (checkStyle busy_env stale_legacy_args example_world)) = []
   \<and> fst (checkStyle changed_env stale_legacy_args example_world) =
       Resolved (Updated (changed_doc\<lparr>sid := Some 1, updateDate := Some 100000,
           reason := Some ''update'', enabled := None, originalName := Some ''Dark''\<rparr>))"
proof -
  have c: "chain busy_env stale_legacy_args example_world =
      (Inl (Status 503),
       example_world\<lparr>fetched := [Request (Some ''https://example.org/1.md5'') False]\<rparr>)"
    by (simp add: example_defs chain_def candidate_def checkIfEdited_def truthy_def
        maybeUpdateUSO_def download_def)
  have u: "fst (checkStyle changed_env stale_legacy_args example_world) =
       Resolved (Updated (changed_doc\<lparr>sid := Some 1, updateDate := Some 100000,
           reason := Some ''update'', enabled := None, originalName := Some ''Dark''\<rparr>))"
    by (simp add: example_defs checkStyle_def chain_def candidate_def checkIfEdited_def
        truthy_def maybeUpdateUSO_def download_def maybeSave_def maybeSave_object_def
        styleJSONseemsValid_def stamp_def save_method_of_def reportSuccess_def log_def
        debounce_def postMessage_def Let_def)
  from service_unavailable_rejects [OF c] u show ?thesis
    by (simp add: example_defs)
qed



subsection \<open>The scheduler\<close>

text \<open>
  Claim C8. \<open>schedule\<close> with an interval of \<open>h\<close> hours, \<open>h\<close> not zero, arms
  \<open>checkAllStyles\<close> with the delay \<open>max 10000 (h * 3600000 - elapsed)\<close> in
  milliseconds, where \<open>elapsed\<close> is the time since \<open>lastUpdateTime\<close>, taken as zero
  when the clock is behind it. With an interval of zero the pending trigger of
  \<open>checkAllStyles\<close> is removed. The timer of the log flush is not touched.
\<close>

theorem schedule_delay:
  "timers (schedule w) CheckAllStyles =
     (if updateInterval w = 0 then None
      else Some (max 10000
             (updateInterval w * 60 * 60 * 1000 - max 0 (now w - lastUpdateTime w))))
   \<and> timers (schedule w) FlushQueue = timers w FlushQueue"
  by (simp add: schedule_def debounce_def debounce_unregister_def Let_def)

theorem schedule_delay_witness:
  "timers (schedule example_world) CheckAllStyles = Some 86300000
   \<and> timers (schedule (example_world\<lparr>lastUpdateTime := 100000 - 86395000\<rparr>)) CheckAllStyles
       = Some 10000
   \<and> timers (schedule (example_world\<lparr>updateInterval := 0, timers := (\<lambda>c. Some 5000)\<rparr>))
       CheckAllStyles = None"
  using schedule_delay [of example_world]
    schedule_delay [of "example_world\<lparr>lastUpdateTime := 100000 - 86395000\<rparr>"]
    schedule_delay [of "example_world\<lparr>updateInterval := 0, timers := (\<lambda>c. Some 5000)\<rparr>"]
  by (simp add: example_defs)

subsection \<open>The activity log\<close>






end
